theory Spec2Isabelle
  imports Main "HOL-Library.Word"
begin

unbundle bit_operations_syntax

section \<open>Python values, errors and containers\<close>

text \<open>
  The interpreter is written in Python. Its integers are unbounded (\<open>int\<close>), its
  exceptions are values of \<open>py_error\<close> returned on the left of a sum, and the bytes
  of a method body are \<open>8 word\<close>s.
\<close>

datatype py_error = IndexError | TypeError | ValueError | OverflowError | RecursionError

type_synonym byte = "8 word"

text \<open>A Python \<open>str\<close> is a sequence of code points (lone surrogates are allowed).\<close>

type_synonym pystr = "nat list"

text \<open>
  A Python \<open>float\<close>: sign, magnitude of the mantissa and binary exponent of a finite
  value (both zeros have mantissa 0), the two infinities and NaN.
\<close>

datatype pyfloat = Fin bool nat int | PosInf | NegInf | NaN

text \<open>
  What \<open>RegisterValue.value\<close> may hold: \<open>None\<close>, an int, a float, a str, or a
  reference to a \<open>DalvikObject\<close> or a \<open>DalvikArray\<close> (an address in the store).
\<close>

datatype pyval = VNone | VInt int | VFloat pyfloat | VStr pystr | VObj nat | VArr nat

definition ebind :: "py_error + 'a \<Rightarrow> ('a \<Rightarrow> py_error + 'b) \<Rightarrow> py_error + 'b" where
  "ebind m f = (case m of Inl e \<Rightarrow> Inl e | Inr x \<Rightarrow> f x)"

text \<open>\<open>xs[i]\<close>: a negative index counts from the end, out of range raises.\<close>

definition py_index :: "'a list \<Rightarrow> int \<Rightarrow> py_error + 'a" where
  "py_index xs i =
     (if 0 \<le> i then (if i < int (length xs) then Inr (xs ! nat i) else Inl IndexError)
      else (if - int (length xs) \<le> i then Inr (xs ! nat (int (length xs) + i))
            else Inl IndexError))"

text \<open>\<open>xs[a:b]\<close>: both bounds are normalised into \<open>0..len\<close>, never raises.\<close>

definition py_bound :: "nat \<Rightarrow> int \<Rightarrow> nat" where
  "py_bound n i = (if i < 0 then nat (int n + i) else min n (nat i))"

definition py_slice :: "'a list \<Rightarrow> int \<Rightarrow> int \<Rightarrow> 'a list" where
  "py_slice xs a b = take (py_bound (length xs) b - py_bound (length xs) a)
                          (drop (py_bound (length xs) a) xs)"

text \<open>\<open>int.from_bytes(bs, 'little')\<close> and its \<open>signed=True\<close> form.\<close>

fun from_bytes_le :: "byte list \<Rightarrow> nat" where
  "from_bytes_le [] = 0"
| "from_bytes_le (b # bs) = unat b + 256 * from_bytes_le bs"

definition from_bytes_le_signed :: "byte list \<Rightarrow> int" where
  "from_bytes_le_signed bs =
     (if bs = [] then 0
      else if 2 ^ (8 * length bs - 1) \<le> from_bytes_le bs
           then int (from_bytes_le bs) - 2 ^ (8 * length bs)
           else int (from_bytes_le bs))"

section \<open>Arrays, registers and the interpreter state\<close>

text \<open>\<open>DalvikArray\<close> (types.py): \<open>type_desc\<close> is a type index or a descriptor string.\<close>

datatype type_desc = TypeIdx nat | TypeName string

record dalvik_array =
  type_desc :: type_desc
  arr_size :: int
  data :: "pyval list"

text \<open>\<open>DalvikArray(type_desc, size)\<close>: \<open>[0] * size\<close> is empty for a negative size.\<close>

definition DalvikArray :: "type_desc \<Rightarrow> int \<Rightarrow> dalvik_array" where
  "DalvikArray t n = \<lparr>type_desc = t, arr_size = n, data = replicate (nat n) (VInt 0)\<rparr>"

text \<open>
  A line written by \<open>print\<close>. \<open>ArrayIndexWarning idx size\<close> is the text
  \<open>WARN: Array index out of bounds: {idx} (size {size})\<close> of the array handlers.
\<close>

datatype message = ArrayIndexWarning int int

text \<open>
  \<open>DalvikVM\<close> (vm.py). The arrays live in Python's object store, shared by every
  interpreter; the store and the standard output are threaded through the state:
  \<open>VArr a\<close> is the array at position \<open>a\<close> of \<open>heap\<close>, an allocation appends.
  \<open>last_result\<close> is \<open>None\<close> or a \<open>RegisterValue\<close>.
\<close>

record vm =
  bytecode :: "byte list"
  registers :: "pyval list"
  pc :: int
  finished :: bool
  last_result :: "pyval option"
  heap :: "dalvik_array list"
  stdout :: "message list"

definition byte_at :: "vm \<Rightarrow> int \<Rightarrow> py_error + nat" where
  "byte_at v i = ebind (py_index (bytecode v) i) (\<lambda>b. Inr (unat b))"

definition read_u16 :: "vm \<Rightarrow> int \<Rightarrow> nat" where
  "read_u16 v off = from_bytes_le (py_slice (bytecode v) off (off + 2))"

text \<open>\<open>Registers\<close> (types.py), for the indices an instruction can encode (never negative).\<close>

definition reg_get :: "pyval list \<Rightarrow> nat \<Rightarrow> py_error + pyval" where
  "reg_get rs i = (if i < length rs then Inr (rs ! i) else Inl IndexError)"

definition reg_set :: "pyval list \<Rightarrow> nat \<Rightarrow> pyval \<Rightarrow> pyval list" where
  "reg_set rs i x =
     (if length rs \<le> i then (rs @ replicate (i - length rs + 1) VNone)[i := x]
      else rs[i := x])"

definition get_int :: "pyval list \<Rightarrow> nat \<Rightarrow> int" where
  "get_int rs i =
     (if length rs \<le> i then 0
      else (case rs ! i of VInt n \<Rightarrow> n | _ \<Rightarrow> 0))"

section \<open>Arithmetic handlers (opcodes/arithmetic.py)\<close>

datatype binop = Add | Sub | RSub | Mul | Div | Rem | And | Or | Xor | Shl | Shr | Ushr

text \<open>
  The lambdas handed to the int helpers. Python's \<open>//\<close> and \<open>%\<close> round towards minus
  infinity, as \<open>div\<close> and \<open>mod\<close> on \<open>int\<close> do; \<open>&\<close>, \<open>|\<close>, \<open>^\<close> act on the
  infinite two's-complement form, as \<open>AND\<close>, \<open>OR\<close>, \<open>XOR\<close> on \<open>int\<close> do.
\<close>

fun int_op :: "binop \<Rightarrow> int \<Rightarrow> int \<Rightarrow> int" where
  "int_op Add a b = a + b"
| "int_op Sub a b = a - b"
| "int_op RSub a b = b - a"
| "int_op Mul a b = a * b"
| "int_op Div a b = (if b \<noteq> 0 then a div b else 0)"
| "int_op Rem a b = (if b \<noteq> 0 then a mod b else 0)"
| "int_op And a b = a AND b"
| "int_op Or a b = a OR b"
| "int_op Xor a b = a XOR b"
| "int_op Shl a b = push_bit (nat (b AND 0x1F)) a"
| "int_op Shr a b = drop_bit (nat (b AND 0x1F)) a"
| "int_op Ushr a b = drop_bit (nat (b AND 0x1F)) (a AND 0xFFFFFFFF)"

text \<open>The lambdas of the long helpers differ in the shift masks.\<close>

fun long_op :: "binop \<Rightarrow> int \<Rightarrow> int \<Rightarrow> int" where
  "long_op Shl a b = push_bit (nat (b AND 0x3F)) a"
| "long_op Shr a b = drop_bit (nat (b AND 0x3F)) a"
| "long_op Ushr a b = drop_bit (nat (b AND 0x3F)) (a AND 0xFFFFFFFFFFFFFFFF)"
| "long_op Add a b = a + b"
| "long_op Sub a b = a - b"
| "long_op RSub a b = b - a"
| "long_op Mul a b = a * b"
| "long_op Div a b = (if b \<noteq> 0 then a div b else 0)"
| "long_op Rem a b = (if b \<noteq> 0 then a mod b else 0)"
| "long_op And a b = a AND b"
| "long_op Or a b = a OR b"
| "long_op Xor a b = a XOR b"

text \<open>\<open>_arith_23x\<close>: vAA = vBB op vCC, the result masked with \<open>0xFFFFFFFF\<close>.\<close>

definition arith_23x :: "(int \<Rightarrow> int \<Rightarrow> int) \<Rightarrow> vm \<Rightarrow> py_error + vm" where
  "arith_23x op_func v =
     ebind (byte_at v (pc v)) (\<lambda>aa.
     ebind (byte_at v (pc v + 1)) (\<lambda>bb.
     ebind (byte_at v (pc v + 2)) (\<lambda>cc.
       let v_b = get_int (registers v) bb;
           v_c = get_int (registers v) cc;
           result = op_func v_b v_c
       in Inr (v\<lparr>registers := reg_set (registers v) aa (VInt (result AND 0xFFFFFFFF)),
                 pc := pc v + 3\<rparr>))))"

text \<open>\<open>_arith_2addr\<close>: vA = vA op vB; one subtraction of \<open>2^32\<close> above \<open>0x7FFFFFFF\<close>.\<close>

definition arith_2addr :: "(int \<Rightarrow> int \<Rightarrow> int) \<Rightarrow> vm \<Rightarrow> py_error + vm" where
  "arith_2addr op_func v =
     ebind (byte_at v (pc v)) (\<lambda>byte1.
       let a = byte1 AND 0xF;
           b = drop_bit 4 byte1;
           v_a = get_int (registers v) a;
           v_b = get_int (registers v) b;
           result = op_func v_a v_b;
           result' = (if result > 0x7FFFFFFF then result - 0x100000000 else result)
       in Inr (v\<lparr>registers := reg_set (registers v) a (VInt result'), pc := pc v + 1\<rparr>))"

text \<open>\<open>_arith_lit16\<close>: vA = vB op #+CCCC, the result stored as computed.\<close>

definition arith_lit16 :: "(int \<Rightarrow> int \<Rightarrow> int) \<Rightarrow> vm \<Rightarrow> py_error + vm" where
  "arith_lit16 op_func v =
     ebind (byte_at v (pc v)) (\<lambda>byte1.
       let a = byte1 AND 0xF;
           b = drop_bit 4 byte1;
           lit = from_bytes_le_signed (py_slice (bytecode v) (pc v + 1) (pc v + 3));
           v_b = get_int (registers v) b;
           result = op_func v_b lit
       in Inr (v\<lparr>registers := reg_set (registers v) a (VInt result), pc := pc v + 3\<rparr>))"

text \<open>\<open>_arith_lit8\<close>: vAA = vBB op #+CC, the result stored as computed.\<close>

definition arith_lit8 :: "(int \<Rightarrow> int \<Rightarrow> int) \<Rightarrow> vm \<Rightarrow> py_error + vm" where
  "arith_lit8 op_func v =
     ebind (byte_at v (pc v)) (\<lambda>aa.
     ebind (byte_at v (pc v + 1)) (\<lambda>bb.
       let cc = from_bytes_le_signed (py_slice (bytecode v) (pc v + 2) (pc v + 3));
           v_b = get_int (registers v) bb;
           result = op_func v_b cc
       in Inr (v\<lparr>registers := reg_set (registers v) aa (VInt result), pc := pc v + 3\<rparr>)))"

text \<open>\<open>_arith_long_23x\<close> and \<open>_arith_long_2addr\<close>: the high half of the pair is cleared.\<close>

definition arith_long_23x :: "(int \<Rightarrow> int \<Rightarrow> int) \<Rightarrow> vm \<Rightarrow> py_error + vm" where
  "arith_long_23x op_func v =
     ebind (byte_at v (pc v)) (\<lambda>aa.
     ebind (byte_at v (pc v + 1)) (\<lambda>bb.
     ebind (byte_at v (pc v + 2)) (\<lambda>cc.
       let v_b = get_int (registers v) bb;
           v_c = get_int (registers v) cc;
           result = op_func v_b v_c;
           regs1 = reg_set (registers v) aa (VInt result)
       in Inr (v\<lparr>registers := reg_set regs1 (aa + 1) VNone, pc := pc v + 3\<rparr>))))"

definition arith_long_2addr :: "(int \<Rightarrow> int \<Rightarrow> int) \<Rightarrow> vm \<Rightarrow> py_error + vm" where
  "arith_long_2addr op_func v =
     ebind (byte_at v (pc v)) (\<lambda>byte1.
       let dst = byte1 AND 0xF;
           src = drop_bit 4 byte1;
           v_a = get_int (registers v) dst;
           v_b = get_int (registers v) src;
           result = op_func v_a v_b;
           regs1 = reg_set (registers v) dst (VInt result)
       in Inr (v\<lparr>registers := reg_set regs1 (dst + 1) VNone, pc := pc v + 1\<rparr>))"

subsection \<open>Float and double arithmetic\<close>

text \<open>
  The float arithmetic of the Python runtime is not code of the interpreter: its
  operations on a non-zero divisor and its conversions are taken as the parameter
  \<open>float_runtime\<close>. The zero tests and the results by zero are the handlers' own.
\<close>

record float_runtime =
  fadd :: "pyfloat \<Rightarrow> pyfloat \<Rightarrow> pyfloat"
  fsub :: "pyfloat \<Rightarrow> pyfloat \<Rightarrow> pyfloat"
  fmul :: "pyfloat \<Rightarrow> pyfloat \<Rightarrow> pyfloat"
  truediv :: "pyfloat \<Rightarrow> pyfloat \<Rightarrow> pyfloat"
  fmod :: "pyfloat \<Rightarrow> pyfloat \<Rightarrow> pyfloat"
  float_of_int :: "int \<Rightarrow> py_error + pyfloat"
  float_of_str :: "pystr \<Rightarrow> py_error + pyfloat"

text \<open>\<open>float(x)\<close>: \<open>None\<close> and object references raise \<open>TypeError\<close>.\<close>

fun py_float :: "float_runtime \<Rightarrow> pyval \<Rightarrow> py_error + pyfloat" where
  "py_float rt VNone = Inl TypeError"
| "py_float rt (VInt i) = float_of_int rt i"
| "py_float rt (VFloat f) = Inr f"
| "py_float rt (VStr s) = float_of_str rt s"
| "py_float rt (VObj a) = Inl TypeError"
| "py_float rt (VArr a) = Inl TypeError"

text \<open>\<open>b != 0\<close> on a float: false for both zeros only (NaN differs from 0).\<close>

fun float_ne_zero :: "pyfloat \<Rightarrow> bool" where
  "float_ne_zero (Fin s m e) = (m \<noteq> 0)"
| "float_ne_zero PosInf = True"
| "float_ne_zero NegInf = True"
| "float_ne_zero NaN = True"

datatype fbinop = FAdd | FSub | FMul | FDiv | FRem

fun float_op :: "float_runtime \<Rightarrow> fbinop \<Rightarrow> pyfloat \<Rightarrow> pyfloat \<Rightarrow> pyfloat" where
  "float_op rt FAdd a b = fadd rt a b"
| "float_op rt FSub a b = fsub rt a b"
| "float_op rt FMul a b = fmul rt a b"
| "float_op rt FDiv a b = (if float_ne_zero b then truediv rt a b else PosInf)"
| "float_op rt FRem a b = (if float_ne_zero b then fmod rt a b else NaN)"

text \<open>
  \<open>_arith_float_23x\<close>. A \<open>RegisterValue\<close> is always truthy, so the operand is its
  \<open>value\<close>; \<open>float(...)\<close> of it may raise.
\<close>

definition arith_float_23x ::
  "float_runtime \<Rightarrow> (pyfloat \<Rightarrow> pyfloat \<Rightarrow> pyfloat) \<Rightarrow> vm \<Rightarrow> py_error + vm" where
  "arith_float_23x rt op_func v =
     ebind (byte_at v (pc v)) (\<lambda>aa.
     ebind (byte_at v (pc v + 1)) (\<lambda>bb.
     ebind (byte_at v (pc v + 2)) (\<lambda>cc.
     ebind (reg_get (registers v) bb) (\<lambda>v_b.
     ebind (reg_get (registers v) cc) (\<lambda>v_c.
     ebind (py_float rt v_b) (\<lambda>fb.
     ebind (py_float rt v_c) (\<lambda>fc.
       Inr (v\<lparr>registers := reg_set (registers v) aa (VFloat (op_func fb fc)),
                 pc := pc v + 3\<rparr>))))))))"

definition arith_float_2addr ::
  "float_runtime \<Rightarrow> (pyfloat \<Rightarrow> pyfloat \<Rightarrow> pyfloat) \<Rightarrow> vm \<Rightarrow> py_error + vm" where
  "arith_float_2addr rt op_func v =
     ebind (byte_at v (pc v)) (\<lambda>byte1.
       let dst = byte1 AND 0xF; src = drop_bit 4 byte1 in
     ebind (reg_get (registers v) dst) (\<lambda>v_a.
     ebind (reg_get (registers v) src) (\<lambda>v_b.
     ebind (py_float rt v_a) (\<lambda>fa.
     ebind (py_float rt v_b) (\<lambda>fb.
       Inr (v\<lparr>registers := reg_set (registers v) dst (VFloat (op_func fa fb)),
                 pc := pc v + 1\<rparr>))))))"

definition arith_double_23x ::
  "float_runtime \<Rightarrow> (pyfloat \<Rightarrow> pyfloat \<Rightarrow> pyfloat) \<Rightarrow> vm \<Rightarrow> py_error + vm" where
  "arith_double_23x rt op_func v =
     ebind (byte_at v (pc v)) (\<lambda>aa.
     ebind (byte_at v (pc v + 1)) (\<lambda>bb.
     ebind (byte_at v (pc v + 2)) (\<lambda>cc.
     ebind (reg_get (registers v) bb) (\<lambda>v_b.
     ebind (reg_get (registers v) cc) (\<lambda>v_c.
     ebind (py_float rt v_b) (\<lambda>fb.
     ebind (py_float rt v_c) (\<lambda>fc.
       let regs1 = reg_set (registers v) aa (VFloat (op_func fb fc))
       in Inr (v\<lparr>registers := reg_set regs1 (aa + 1) VNone, pc := pc v + 3\<rparr>))))))))"

definition arith_double_2addr ::
  "float_runtime \<Rightarrow> (pyfloat \<Rightarrow> pyfloat \<Rightarrow> pyfloat) \<Rightarrow> vm \<Rightarrow> py_error + vm" where
  "arith_double_2addr rt op_func v =
     ebind (byte_at v (pc v)) (\<lambda>byte1.
       let dst = byte1 AND 0xF; src = drop_bit 4 byte1 in
     ebind (reg_get (registers v) dst) (\<lambda>v_a.
     ebind (reg_get (registers v) src) (\<lambda>v_b.
     ebind (py_float rt v_a) (\<lambda>fa.
     ebind (py_float rt v_b) (\<lambda>fb.
       let regs1 = reg_set (registers v) dst (VFloat (op_func fa fb))
       in Inr (v\<lparr>registers := reg_set regs1 (dst + 1) VNone, pc := pc v + 1\<rparr>))))))"

subsection \<open>The arithmetic rows of the dispatch table (opcodes/__init__.py)\<close>

text \<open>
  The names \<open>execute_add_long\<close> ... are first bound to the int handlers and then
  rebound by the later \<open>def\<close>s, so \<open>0x9b..0xa5\<close> and \<open>0xbb..0xc5\<close> reach the long
  helpers.
\<close>

definition ops11 :: "binop list" where
  "ops11 = [Add, Sub, Mul, Div, Rem, And, Or, Xor, Shl, Shr, Ushr]"

definition ops_lit16 :: "binop list" where
  "ops_lit16 = [Add, RSub, Mul, Div, Rem, And, Or, Xor]"

definition ops_lit8 :: "binop list" where
  "ops_lit8 = [Add, RSub, Mul, Div, Rem, And, Or, Xor, Shl, Shr, Ushr]"

definition fops :: "fbinop list" where
  "fops = [FAdd, FSub, FMul, FDiv, FRem]"

definition arith_handlers :: "float_runtime \<Rightarrow> nat \<Rightarrow> (vm \<Rightarrow> py_error + vm) option" where
  "arith_handlers rt opcode =
     (if 0x90 \<le> opcode \<and> opcode \<le> 0x9a then Some (arith_23x (int_op (ops11 ! (opcode - 0x90))))
      else if 0x9b \<le> opcode \<and> opcode \<le> 0xa5
        then Some (arith_long_23x (long_op (ops11 ! (opcode - 0x9b))))
      else if 0xa6 \<le> opcode \<and> opcode \<le> 0xaa
        then Some (arith_float_23x rt (float_op rt (fops ! (opcode - 0xa6))))
      else if 0xab \<le> opcode \<and> opcode \<le> 0xaf
        then Some (arith_double_23x rt (float_op rt (fops ! (opcode - 0xab))))
      else if 0xb0 \<le> opcode \<and> opcode \<le> 0xba
        then Some (arith_2addr (int_op (ops11 ! (opcode - 0xb0))))
      else if 0xbb \<le> opcode \<and> opcode \<le> 0xc5
        then Some (arith_long_2addr (long_op (ops11 ! (opcode - 0xbb))))
      else if 0xc6 \<le> opcode \<and> opcode \<le> 0xca
        then Some (arith_float_2addr rt (float_op rt (fops ! (opcode - 0xc6))))
      else if 0xcb \<le> opcode \<and> opcode \<le> 0xcf
        then Some (arith_double_2addr rt (float_op rt (fops ! (opcode - 0xcb))))
      else if 0xd0 \<le> opcode \<and> opcode \<le> 0xd7
        then Some (arith_lit16 (int_op (ops_lit16 ! (opcode - 0xd0))))
      else if 0xd8 \<le> opcode \<and> opcode \<le> 0xe2
        then Some (arith_lit8 (int_op (ops_lit8 ! (opcode - 0xd8))))
      else None)"

section \<open>Array handlers (opcodes/array.py)\<close>

text \<open>The array a register value refers to, if it is a \<open>DalvikArray\<close>.\<close>

fun as_array :: "dalvik_array list \<Rightarrow> pyval \<Rightarrow> (nat \<times> dalvik_array) option" where
  "as_array h (VArr a) = (if a < length h then Some (a, h ! a) else None)"
| "as_array h x = None"

text \<open>\<open>xs[i] = x\<close> for \<open>i \<ge> 0\<close>: raises outside the list.\<close>

definition py_list_set :: "'a list \<Rightarrow> nat \<Rightarrow> 'a \<Rightarrow> py_error + 'a list" where
  "py_list_set xs i x = (if i < length xs then Inr (xs[i := x]) else Inl IndexError)"

definition execute_new_array :: "vm \<Rightarrow> py_error + vm" where
  "execute_new_array v =
     ebind (byte_at v (pc v)) (\<lambda>byte1.
       let reg_dest = byte1 AND 0xF;
           reg_size = drop_bit 4 byte1;
           type_idx = read_u16 v (pc v + 1);
           sz = get_int (registers v) reg_size;
           arr = DalvikArray (TypeIdx type_idx) sz
       in Inr (v\<lparr>heap := heap v @ [arr],
                 registers := reg_set (registers v) reg_dest (VArr (length (heap v))),
                 pc := pc v + 3\<rparr>))"

text \<open>
  One round of the loop of \<open>execute_fill_array_data\<close>: widths 1 and 2 are read
  unsigned, width 4 signed, any other width leaves the element as it is.
\<close>

definition fill_element ::
  "byte list \<Rightarrow> int \<Rightarrow> nat \<Rightarrow> pyval list \<Rightarrow> nat \<Rightarrow> py_error + pyval list" where
  "fill_element bc data_start element_width d i =
     (if element_width = 1 then
        ebind (py_index bc (data_start + int i)) (\<lambda>b. py_list_set d i (VInt (int (unat b))))
      else if element_width = 2 then
        py_list_set d i (VInt (int (from_bytes_le
          (py_slice bc (data_start + int i * 2) (data_start + int i * 2 + 2)))))
      else if element_width = 4 then
        py_list_set d i (VInt (from_bytes_le_signed
          (py_slice bc (data_start + int i * 4) (data_start + int i * 4 + 4))))
      else Inr d)"

fun fill_loop ::
  "byte list \<Rightarrow> int \<Rightarrow> nat \<Rightarrow> nat list \<Rightarrow> pyval list \<Rightarrow> py_error + pyval list" where
  "fill_loop bc data_start element_width [] d = Inr d"
| "fill_loop bc data_start element_width (i # is) d =
     ebind (fill_element bc data_start element_width d i)
           (fill_loop bc data_start element_width is)"

definition execute_fill_array_data :: "vm \<Rightarrow> py_error + vm" where
  "execute_fill_array_data v =
     ebind (byte_at v (pc v)) (\<lambda>reg.
       let offset = from_bytes_le_signed (py_slice (bytecode v) (pc v + 1) (pc v + 5)) in
     ebind (reg_get (registers v) reg) (\<lambda>arr.
       case as_array (heap v) arr of
         None \<Rightarrow> Inr (v\<lparr>pc := pc v + 5\<rparr>)
       | Some (a, arr) \<Rightarrow>
          (let instr_start = pc v - 1;
               payload_addr = instr_start + offset * 2
           in if payload_addr + 8 > int (length (bytecode v)) then Inr (v\<lparr>pc := pc v + 5\<rparr>)
              else if read_u16 v payload_addr \<noteq> 0x0300 then Inr (v\<lparr>pc := pc v + 5\<rparr>)
              else
               (let element_width = read_u16 v (payload_addr + 2);
                    sz = int (from_bytes_le
                           (py_slice (bytecode v) (payload_addr + 4) (payload_addr + 8)));
                    data_start = payload_addr + 8
                in ebind (fill_loop (bytecode v) data_start element_width
                            [0 ..< nat (min sz (arr_size arr))] (data arr))
                     (\<lambda>d. Inr (v\<lparr>heap := (heap v)[a := arr\<lparr>data := d\<rparr>],
                                   pc := pc v + 5\<rparr>))))))"

text \<open>\<open>execute_aget\<close>, bound to every aget opcode (\<open>0x44..0x4a\<close>).\<close>

definition execute_aget :: "vm \<Rightarrow> py_error + vm" where
  "execute_aget v =
     ebind (byte_at v (pc v)) (\<lambda>aa.
     ebind (byte_at v (pc v + 1)) (\<lambda>bb.
     ebind (byte_at v (pc v + 2)) (\<lambda>cc.
     ebind (reg_get (registers v) bb) (\<lambda>arr.
       let idx = get_int (registers v) cc in
       case as_array (heap v) arr of
         None \<Rightarrow> Inr (v\<lparr>registers := reg_set (registers v) aa (VInt 0), pc := pc v + 3\<rparr>)
       | Some (a, arr) \<Rightarrow>
           if 0 \<le> idx \<and> idx < arr_size arr then
             ebind (py_index (data arr) idx) (\<lambda>val.
               Inr (v\<lparr>registers := reg_set (registers v) aa val, pc := pc v + 3\<rparr>))
           else
             Inr (v\<lparr>stdout := stdout v @ [ArrayIndexWarning idx (arr_size arr)],
                     registers := reg_set (registers v) aa (VInt 0),
                     pc := pc v + 3\<rparr>)))))"

text \<open>\<open>execute_aput\<close>, bound to every aput opcode (\<open>0x4b..0x51\<close>).\<close>

definition execute_aput :: "vm \<Rightarrow> py_error + vm" where
  "execute_aput v =
     ebind (byte_at v (pc v)) (\<lambda>aa.
     ebind (byte_at v (pc v + 1)) (\<lambda>bb.
     ebind (byte_at v (pc v + 2)) (\<lambda>cc.
       let val = get_int (registers v) aa in
     ebind (reg_get (registers v) bb) (\<lambda>arr.
       let idx = get_int (registers v) cc in
       case as_array (heap v) arr of
         None \<Rightarrow> Inr (v\<lparr>pc := pc v + 3\<rparr>)
       | Some (a, arr) \<Rightarrow>
           if 0 \<le> idx \<and> idx < arr_size arr then
             ebind (py_list_set (data arr) (nat idx) (VInt val)) (\<lambda>d.
               Inr (v\<lparr>heap := (heap v)[a := arr\<lparr>data := d\<rparr>], pc := pc v + 3\<rparr>))
           else
             Inr (v\<lparr>stdout := stdout v @ [ArrayIndexWarning idx (arr_size arr)],
                     pc := pc v + 3\<rparr>)))))"

definition array_handlers :: "nat \<Rightarrow> (vm \<Rightarrow> py_error + vm) option" where
  "array_handlers opcode =
     (if opcode = 0x23 then Some execute_new_array
      else if opcode = 0x26 then Some execute_fill_array_data
      else if 0x44 \<le> opcode \<and> opcode \<le> 0x4a then Some execute_aget
      else if 0x4b \<le> opcode \<and> opcode \<le> 0x51 then Some execute_aput
      else None)"

subsection \<open>Sample states used by the concrete checks\<close>

definition vm_at1 :: "byte list \<Rightarrow> pyval list \<Rightarrow> vm" where
  "vm_at1 bc regs = \<lparr>bytecode = bc, registers = regs, pc = 1, finished = False,
     last_result = None, heap = [], stdout = []\<rparr>"

definition sample_runtime :: float_runtime where
  "sample_runtime = \<lparr>fadd = (\<lambda>a b. a), fsub = (\<lambda>a b. a), fmul = (\<lambda>a b. a),
     truediv = (\<lambda>a b. a), fmod = (\<lambda>a b. a),
     float_of_int = (\<lambda>i. Inr (Fin (i < 0) (nat \<bar>i\<bar>) 0)),
     float_of_str = (\<lambda>s. Inl ValueError)\<rparr>"

definition array_vm :: "byte \<Rightarrow> pyval \<Rightarrow> int \<Rightarrow> vm" where
  "array_vm opcode x idx =
     \<lparr>bytecode = [opcode, 0, 1, 2], registers = [x, VArr 0, VInt idx], pc = 1,
      finished = False, last_result = None,
      heap = [\<lparr>type_desc = TypeName ''[C'', arr_size = 3,
               data = [VInt 65, VInt 66, VInt 67]\<rparr>],
      stdout = []\<rparr>"

definition fill_wide_code :: "byte list" where
  "fill_wide_code =
     [0x23, 0x10, 0x00, 0x00,
      0x26, 0x00, 0x04, 0x00, 0x00, 0x00,
      0x0e, 0x00,
      0x00, 0x03, 0x08, 0x00, 0x01, 0x00, 0x00, 0x00,
      0x2a, 0x00, 0x00, 0x00, 0x00, 0x00, 0x00, 0x00]"

section \<open>Verified properties\<close>

subsection \<open>Basic facts about the containers\<close>

lemma ebind_Inr [simp]: "ebind (Inr x) f = f x" by (simp add: ebind_def)
lemma ebind_Inl [simp]: "ebind (Inl e) f = Inl e" by (simp add: ebind_def)

lemma reg_get_reg_set_same: "reg_get (reg_set rs i x) i = Inr x"
  by (simp add: reg_get_def reg_set_def)

lemma reg_get_reg_set_Suc: "reg_get (reg_set (reg_set rs i x) (Suc i) y) i = Inr x"
  by (auto simp add: reg_get_def reg_set_def nth_append nth_list_update)

lemma int_handlers_by_zero:
  assumes "get_int (registers v) cc = 0"
      and "byte_at v (pc v) = Inr aa" "byte_at v (pc v + 1) = Inr bb" "byte_at v (pc v + 2) = Inr cc"
      and "op = Div \<or> op = Rem"
  shows "\<exists>v'. arith_23x (int_op op) v = Inr v' \<and> reg_get (registers v') aa = Inr (VInt 0)"
    and "\<exists>v'. arith_long_23x (long_op op) v = Inr v' \<and> reg_get (registers v') aa = Inr (VInt 0)"
  using assms by (auto simp add: arith_23x_def arith_long_23x_def reg_get_reg_set_same reg_get_reg_set_Suc)

lemma int_2addr_by_zero:
  assumes "byte_at v (pc v) = Inr byte1" "get_int (registers v) (drop_bit 4 byte1) = 0"
      and "op = Div \<or> op = Rem"
  shows "\<exists>v'. arith_2addr (int_op op) v = Inr v' \<and> reg_get (registers v') (byte1 AND 0xF) = Inr (VInt 0)"
    and "\<exists>v'. arith_long_2addr (long_op op) v = Inr v' \<and> reg_get (registers v') (byte1 AND 0xF) = Inr (VInt 0)"
  using assms by (auto simp add: arith_2addr_def arith_long_2addr_def reg_get_reg_set_same reg_get_reg_set_Suc Let_def)

lemma int_lit_by_zero:
  assumes "op = Div \<or> op = Rem"
  shows "byte_at v (pc v) = Inr byte1 \<Longrightarrow> from_bytes_le_signed (py_slice (bytecode v) (pc v + 1) (pc v + 3)) = 0
    \<Longrightarrow> \<exists>v'. arith_lit16 (int_op op) v = Inr v' \<and> reg_get (registers v') (byte1 AND 0xF) = Inr (VInt 0)"
    and "byte_at v (pc v) = Inr aa \<Longrightarrow> byte_at v (pc v + 1) = Inr bb \<Longrightarrow> from_bytes_le_signed (py_slice (bytecode v) (pc v + 2) (pc v + 3)) = 0
    \<Longrightarrow> \<exists>v'. arith_lit8 (int_op op) v = Inr v' \<and> reg_get (registers v') aa = Inr (VInt 0)"
  using assms by (auto simp add: arith_lit16_def arith_lit8_def reg_get_reg_set_same Let_def)

lemma float_by_zero:
  assumes "byte_at v (pc v) = Inr aa" "byte_at v (pc v + 1) = Inr bb" "byte_at v (pc v + 2) = Inr cc"
    and "reg_get (registers v) bb = Inr x" "reg_get (registers v) cc = Inr y"
    and "py_float rt x = Inr fb" "py_float rt y = Inr fc" "\<not> float_ne_zero fc"
  shows "\<exists>v'. arith_float_23x rt (float_op rt FDiv) v = Inr v' \<and> reg_get (registers v') aa = Inr (VFloat PosInf)"
   and "\<exists>v'. arith_double_23x rt (float_op rt FDiv) v = Inr v' \<and> reg_get (registers v') aa = Inr (VFloat PosInf)"
   and "\<exists>v'. arith_float_23x rt (float_op rt FRem) v = Inr v' \<and> reg_get (registers v') aa = Inr (VFloat NaN)"
   and "\<exists>v'. arith_double_23x rt (float_op rt FRem) v = Inr v' \<and> reg_get (registers v') aa = Inr (VFloat NaN)"
  using assms by (auto simp add: arith_float_23x_def arith_double_23x_def reg_get_reg_set_same reg_get_reg_set_Suc Let_def)

lemma float_2addr_by_zero:
  assumes "byte_at v (pc v) = Inr byte1"
    and "reg_get (registers v) (byte1 AND 0xF) = Inr x" "reg_get (registers v) (drop_bit 4 byte1) = Inr y"
    and "py_float rt x = Inr fa" "py_float rt y = Inr fb" "\<not> float_ne_zero fb"
  shows "\<exists>v'. arith_float_2addr rt (float_op rt FDiv) v = Inr v' \<and> reg_get (registers v') (byte1 AND 0xF) = Inr (VFloat PosInf)"
   and "\<exists>v'. arith_double_2addr rt (float_op rt FDiv) v = Inr v' \<and> reg_get (registers v') (byte1 AND 0xF) = Inr (VFloat PosInf)"
   and "\<exists>v'. arith_float_2addr rt (float_op rt FRem) v = Inr v' \<and> reg_get (registers v') (byte1 AND 0xF) = Inr (VFloat NaN)"
   and "\<exists>v'. arith_double_2addr rt (float_op rt FRem) v = Inr v' \<and> reg_get (registers v') (byte1 AND 0xF) = Inr (VFloat NaN)"
  using assms by (auto simp add: arith_float_2addr_def arith_double_2addr_def reg_get_reg_set_same reg_get_reg_set_Suc Let_def)

lemma vm_at1_simps [simp]:
  "bytecode (vm_at1 bc regs) = bc" "registers (vm_at1 bc regs) = regs" "pc (vm_at1 bc regs) = 1"
  by (simp_all add: vm_at1_def)


subsection \<open>Division and remainder by zero\<close>

text \<open>
  Claim C3. For every integer div and rem opcode (23x \<open>0x93 0x94\<close>, long \<open>0x9e 0x9f\<close>,
  2addr \<open>0xb3 0xb4\<close>, long 2addr \<open>0xbe 0xbf\<close>, lit16 \<open>0xd3 0xd4\<close>, lit8 \<open>0xdb 0xdc\<close>)
  the handler of the dispatch table, run on a state whose divisor operand reads as zero,
  returns normally and the destination register then holds the integer 0. For every
  float and double div opcode (\<open>0xa9 0xae 0xc9 0xce\<close>) a zero divisor gives the float
  infinity, and for every float and double rem opcode (\<open>0xaa 0xaf 0xca 0xcf\<close>) it
  gives NaN, whenever both operand registers hold values that \<open>float(...)\<close> accepts.
\<close>

theorem div_rem_by_zero:
  "(opcode \<in> {0x93, 0x94, 0x9e, 0x9f} \<longrightarrow>
      (\<exists>h. arith_handlers rt opcode = Some h \<and>
        (\<forall>v aa bb cc. byte_at v (pc v) = Inr aa \<and> byte_at v (pc v + 1) = Inr bb \<and>
            byte_at v (pc v + 2) = Inr cc \<and> get_int (registers v) cc = 0
          \<longrightarrow> (\<exists>v'. h v = Inr v' \<and> reg_get (registers v') aa = Inr (VInt 0))))) \<and>
   (opcode \<in> {0xb3, 0xb4, 0xbe, 0xbf} \<longrightarrow>
      (\<exists>h. arith_handlers rt opcode = Some h \<and>
        (\<forall>v byte1. byte_at v (pc v) = Inr byte1 \<and> get_int (registers v) (drop_bit 4 byte1) = 0
          \<longrightarrow> (\<exists>v'. h v = Inr v' \<and> reg_get (registers v') (byte1 AND 0xF) = Inr (VInt 0))))) \<and>
   (opcode \<in> {0xd3, 0xd4} \<longrightarrow>
      (\<exists>h. arith_handlers rt opcode = Some h \<and>
        (\<forall>v byte1. byte_at v (pc v) = Inr byte1 \<and>
            from_bytes_le_signed (py_slice (bytecode v) (pc v + 1) (pc v + 3)) = 0
          \<longrightarrow> (\<exists>v'. h v = Inr v' \<and> reg_get (registers v') (byte1 AND 0xF) = Inr (VInt 0))))) \<and>
   (opcode \<in> {0xdb, 0xdc} \<longrightarrow>
      (\<exists>h. arith_handlers rt opcode = Some h \<and>
        (\<forall>v aa bb. byte_at v (pc v) = Inr aa \<and> byte_at v (pc v + 1) = Inr bb \<and>
            from_bytes_le_signed (py_slice (bytecode v) (pc v + 2) (pc v + 3)) = 0
          \<longrightarrow> (\<exists>v'. h v = Inr v' \<and> reg_get (registers v') aa = Inr (VInt 0))))) \<and>
   (opcode \<in> {0xa9, 0xae, 0xaa, 0xaf} \<longrightarrow>
      (\<exists>h. arith_handlers rt opcode = Some h \<and>
        (\<forall>v aa bb cc x y fb fc. byte_at v (pc v) = Inr aa \<and> byte_at v (pc v + 1) = Inr bb \<and>
            byte_at v (pc v + 2) = Inr cc \<and>
            reg_get (registers v) bb = Inr x \<and> reg_get (registers v) cc = Inr y \<and>
            py_float rt x = Inr fb \<and> py_float rt y = Inr fc \<and> \<not> float_ne_zero fc
          \<longrightarrow> (\<exists>v'. h v = Inr v' \<and> reg_get (registers v') aa =
                  Inr (VFloat (if opcode \<in> {0xa9, 0xae} then PosInf else NaN)))))) \<and>
   (opcode \<in> {0xc9, 0xce, 0xca, 0xcf} \<longrightarrow>
      (\<exists>h. arith_handlers rt opcode = Some h \<and>
        (\<forall>v byte1 x y fa fb. byte_at v (pc v) = Inr byte1 \<and>
            reg_get (registers v) (byte1 AND 0xF) = Inr x \<and>
            reg_get (registers v) (drop_bit 4 byte1) = Inr y \<and>
            py_float rt x = Inr fa \<and> py_float rt y = Inr fb \<and> \<not> float_ne_zero fb
          \<longrightarrow> (\<exists>v'. h v = Inr v' \<and> reg_get (registers v') (byte1 AND 0xF) =
                  Inr (VFloat (if opcode \<in> {0xc9, 0xce} then PosInf else NaN))))))"
proof -
  have tbl: "arith_handlers rt 0x93 = Some (arith_23x (int_op Div))"
    "arith_handlers rt 0x94 = Some (arith_23x (int_op Rem))"
    "arith_handlers rt 0x9e = Some (arith_long_23x (long_op Div))"
    "arith_handlers rt 0x9f = Some (arith_long_23x (long_op Rem))"
    "arith_handlers rt 0xb3 = Some (arith_2addr (int_op Div))"
    "arith_handlers rt 0xb4 = Some (arith_2addr (int_op Rem))"
    "arith_handlers rt 0xbe = Some (arith_long_2addr (long_op Div))"
    "arith_handlers rt 0xbf = Some (arith_long_2addr (long_op Rem))"
    "arith_handlers rt 0xd3 = Some (arith_lit16 (int_op Div))"
    "arith_handlers rt 0xd4 = Some (arith_lit16 (int_op Rem))"
    "arith_handlers rt 0xdb = Some (arith_lit8 (int_op Div))"
    "arith_handlers rt 0xdc = Some (arith_lit8 (int_op Rem))"
    "arith_handlers rt 0xa9 = Some (arith_float_23x rt (float_op rt FDiv))"
    "arith_handlers rt 0xaa = Some (arith_float_23x rt (float_op rt FRem))"
    "arith_handlers rt 0xae = Some (arith_double_23x rt (float_op rt FDiv))"
    "arith_handlers rt 0xaf = Some (arith_double_23x rt (float_op rt FRem))"
    "arith_handlers rt 0xc9 = Some (arith_float_2addr rt (float_op rt FDiv))"
    "arith_handlers rt 0xca = Some (arith_float_2addr rt (float_op rt FRem))"
    "arith_handlers rt 0xce = Some (arith_double_2addr rt (float_op rt FDiv))"
    "arith_handlers rt 0xcf = Some (arith_double_2addr rt (float_op rt FRem))"
    by (simp_all add: arith_handlers_def ops11_def fops_def ops_lit8_def ops_lit16_def)
  show ?thesis
    apply (intro conjI impI)
    subgoal using int_handlers_by_zero [where op = Div] int_handlers_by_zero [where op = Rem]
      by (auto simp add: tbl)
    subgoal using int_2addr_by_zero [where op = Div] int_2addr_by_zero [where op = Rem]
      by (auto simp add: tbl)
    subgoal using int_lit_by_zero(1) [where op = Div] int_lit_by_zero(1) [where op = Rem]
      by (auto simp add: tbl)
    subgoal using int_lit_by_zero(2) [where op = Div] int_lit_by_zero(2) [where op = Rem]
      by (auto simp add: tbl)
    subgoal using float_by_zero [where rt = rt] by (auto simp add: tbl)
    subgoal using float_2addr_by_zero [where rt = rt] by (auto simp add: tbl)
    done
qed


text \<open>The theorem at one concrete instruction of each format.\<close>

theorem div_rem_by_zero_witness:
  "(\<exists>h v'. arith_handlers sample_runtime 0x93 = Some h \<and>
       h (vm_at1 [0x93, 0, 1, 2] [VNone, VInt 7, VInt 0]) = Inr v' \<and>
       reg_get (registers v') 0 = Inr (VInt 0)) \<and>
   (\<exists>h v'. arith_handlers sample_runtime 0xbf = Some h \<and>
       h (vm_at1 [0xbf, 0x20] [VInt 7, VNone, VInt 0]) = Inr v' \<and>
       reg_get (registers v') 0 = Inr (VInt 0)) \<and>
   (\<exists>h v'. arith_handlers sample_runtime 0xd3 = Some h \<and>
       h (vm_at1 [0xd3, 0x10, 0, 0] [VNone, VInt 7]) = Inr v' \<and>
       reg_get (registers v') 0 = Inr (VInt 0)) \<and>
   (\<exists>h v'. arith_handlers sample_runtime 0xdc = Some h \<and>
       h (vm_at1 [0xdc, 0, 1, 0] [VNone, VInt 7]) = Inr v' \<and>
       reg_get (registers v') 0 = Inr (VInt 0)) \<and>
   (\<exists>h v'. arith_handlers sample_runtime 0xa9 = Some h \<and>
       h (vm_at1 [0xa9, 0, 1, 2] [VNone, VInt 7, VFloat (Fin True 0 0)]) = Inr v' \<and>
       reg_get (registers v') 0 = Inr (VFloat PosInf)) \<and>
   (\<exists>h v'. arith_handlers sample_runtime 0xcf = Some h \<and>
       h (vm_at1 [0xcf, 0x10] [VFloat (Fin False 3 1), VInt 0]) = Inr v' \<and>
       reg_get (registers v') 0 = Inr (VFloat NaN))"
proof -
  let ?rt = sample_runtime
  have c1: "\<exists>h v'. arith_handlers ?rt 0x93 = Some h \<and>
       h (vm_at1 [0x93, 0, 1, 2] [VNone, VInt 7, VInt 0]) = Inr v' \<and>
       reg_get (registers v') 0 = Inr (VInt 0)"
  proof -
    let ?v = "vm_at1 [0x93, 0, 1, 2] [VNone, VInt 7, VInt 0]"
    from div_rem_by_zero [of "0x93" ?rt] obtain h where h: "arith_handlers ?rt 0x93 = Some h"
      and H: "\<And>v aa bb cc. byte_at v (pc v) = Inr aa \<and> byte_at v (pc v + 1) = Inr bb \<and>
            byte_at v (pc v + 2) = Inr cc \<and> get_int (registers v) cc = 0
          \<Longrightarrow> \<exists>v'. h v = Inr v' \<and> reg_get (registers v') aa = Inr (VInt 0)"
      by auto
    have "\<exists>v'. h ?v = Inr v' \<and> reg_get (registers v') 0 = Inr (VInt 0)"
      by (rule H [of ?v 0 1 2]) (simp add: byte_at_def py_index_def get_int_def)
    with h show ?thesis by blast
  qed
  have c2: "\<exists>h v'. arith_handlers ?rt 0xbf = Some h \<and>
       h (vm_at1 [0xbf, 0x20] [VInt 7, VNone, VInt 0]) = Inr v' \<and>
       reg_get (registers v') 0 = Inr (VInt 0)"
  proof -
    let ?v = "vm_at1 [0xbf, 0x20] [VInt 7, VNone, VInt 0]"
    from div_rem_by_zero [of "0xbf" ?rt] obtain h where h: "arith_handlers ?rt 0xbf = Some h"
      and H: "\<And>v byte1. byte_at v (pc v) = Inr byte1 \<and>
            get_int (registers v) (drop_bit 4 byte1) = 0
          \<Longrightarrow> \<exists>v'. h v = Inr v' \<and> reg_get (registers v') (byte1 AND 0xF) = Inr (VInt 0)"
      by auto
    have "\<exists>v'. h ?v = Inr v' \<and> reg_get (registers v') (0x20 AND 0xF) = Inr (VInt 0)"
      by (rule H [of ?v "0x20"]) (simp add: byte_at_def py_index_def get_int_def drop_bit_eq_div)
    with h show ?thesis by simp
  qed
  have c3: "\<exists>h v'. arith_handlers ?rt 0xd3 = Some h \<and>
       h (vm_at1 [0xd3, 0x10, 0, 0] [VNone, VInt 7]) = Inr v' \<and>
       reg_get (registers v') 0 = Inr (VInt 0)"
  proof -
    let ?v = "vm_at1 [0xd3, 0x10, 0, 0] [VNone, VInt 7]"
    from div_rem_by_zero [of "0xd3" ?rt] obtain h where h: "arith_handlers ?rt 0xd3 = Some h"
      and H: "\<And>v byte1. byte_at v (pc v) = Inr byte1 \<and>
            from_bytes_le_signed (py_slice (bytecode v) (pc v + 1) (pc v + 3)) = 0
          \<Longrightarrow> \<exists>v'. h v = Inr v' \<and> reg_get (registers v') (byte1 AND 0xF) = Inr (VInt 0)"
      by auto
    have "\<exists>v'. h ?v = Inr v' \<and> reg_get (registers v') (0x10 AND 0xF) = Inr (VInt 0)"
      by (rule H [of ?v "0x10"])
         (simp add: byte_at_def py_index_def from_bytes_le_signed_def py_slice_def py_bound_def)
    with h show ?thesis by simp
  qed
  have c4: "\<exists>h v'. arith_handlers ?rt 0xdc = Some h \<and>
       h (vm_at1 [0xdc, 0, 1, 0] [VNone, VInt 7]) = Inr v' \<and>
       reg_get (registers v') 0 = Inr (VInt 0)"
  proof -
    let ?v = "vm_at1 [0xdc, 0, 1, 0] [VNone, VInt 7]"
    from div_rem_by_zero [of "0xdc" ?rt] obtain h where h: "arith_handlers ?rt 0xdc = Some h"
      and H: "\<And>v aa bb. byte_at v (pc v) = Inr aa \<and> byte_at v (pc v + 1) = Inr bb \<and>
            from_bytes_le_signed (py_slice (bytecode v) (pc v + 2) (pc v + 3)) = 0
          \<Longrightarrow> \<exists>v'. h v = Inr v' \<and> reg_get (registers v') aa = Inr (VInt 0)"
      by auto
    have "\<exists>v'. h ?v = Inr v' \<and> reg_get (registers v') 0 = Inr (VInt 0)"
      by (rule H [of ?v 0 1])
         (simp add: byte_at_def py_index_def from_bytes_le_signed_def py_slice_def py_bound_def)
    with h show ?thesis by blast
  qed
  have c5: "\<exists>h v'. arith_handlers ?rt 0xa9 = Some h \<and>
       h (vm_at1 [0xa9, 0, 1, 2] [VNone, VInt 7, VFloat (Fin True 0 0)]) = Inr v' \<and>
       reg_get (registers v') 0 = Inr (VFloat PosInf)"
  proof -
    let ?v = "vm_at1 [0xa9, 0, 1, 2] [VNone, VInt 7, VFloat (Fin True 0 0)]"
    from div_rem_by_zero [of "0xa9" ?rt] obtain h where h: "arith_handlers ?rt 0xa9 = Some h"
      and H: "\<And>v aa bb cc x y fb fc. byte_at v (pc v) = Inr aa \<and> byte_at v (pc v + 1) = Inr bb \<and>
            byte_at v (pc v + 2) = Inr cc \<and>
            reg_get (registers v) bb = Inr x \<and> reg_get (registers v) cc = Inr y \<and>
            py_float ?rt x = Inr fb \<and> py_float ?rt y = Inr fc \<and> \<not> float_ne_zero fc
          \<Longrightarrow> \<exists>v'. h v = Inr v' \<and> reg_get (registers v') aa = Inr (VFloat PosInf)"
      by auto
    have "\<exists>v'. h ?v = Inr v' \<and> reg_get (registers v') 0 = Inr (VFloat PosInf)"
      by (rule H [of ?v 0 1 2 "VInt 7" "VFloat (Fin True 0 0)" "Fin False 7 0" "Fin True 0 0"])
         (simp add: byte_at_def py_index_def reg_get_def sample_runtime_def)
    with h show ?thesis by blast
  qed
  have c6: "\<exists>h v'. arith_handlers ?rt 0xcf = Some h \<and>
       h (vm_at1 [0xcf, 0x10] [VFloat (Fin False 3 1), VInt 0]) = Inr v' \<and>
       reg_get (registers v') 0 = Inr (VFloat NaN)"
  proof -
    let ?v = "vm_at1 [0xcf, 0x10] [VFloat (Fin False 3 1), VInt 0]"
    from div_rem_by_zero [of "0xcf" ?rt] obtain h where h: "arith_handlers ?rt 0xcf = Some h"
      and H: "\<And>v byte1 x y fa fb. byte_at v (pc v) = Inr byte1 \<and>
            reg_get (registers v) (byte1 AND 0xF) = Inr x \<and>
            reg_get (registers v) (drop_bit 4 byte1) = Inr y \<and>
            py_float ?rt x = Inr fa \<and> py_float ?rt y = Inr fb \<and> \<not> float_ne_zero fb
          \<Longrightarrow> \<exists>v'. h v = Inr v' \<and> reg_get (registers v') (byte1 AND 0xF) = Inr (VFloat NaN)"
      by auto
    have "\<exists>v'. h ?v = Inr v' \<and> reg_get (registers v') (0x10 AND 0xF) = Inr (VFloat NaN)"
      by (rule H [of ?v "0x10" "VFloat (Fin False 3 1)" "VInt 0" "Fin False 3 1" "Fin False 0 0"])
         (simp add: byte_at_def py_index_def reg_get_def sample_runtime_def drop_bit_eq_div)
    with h show ?thesis by simp
  qed
  from c1 c2 c3 c4 c5 c6 show ?thesis by blast
qed

subsection \<open>32-bit integer arithmetic and overflow\<close>

text \<open>
  Claim C4 says that every 32-bit integer arithmetic opcode stores the signed 32-bit
  wrap of the mathematical result, a value of \<open>[-2^31, 2^31)\<close>. The handlers disagree
  with it and with each other. \<open>sub-int v0, v1, v2\<close> with \<open>v1 = 0\<close>, \<open>v2 = 1\<close> stores
  \<open>4294967295\<close> (the 23x helper masks to the unsigned range);
  \<open>sub-int/2addr v0, v1\<close> with \<open>v0 = -2^31\<close>, \<open>v1 = 1\<close> stores \<open>-2^31 - 1\<close> (the 2addr
  helper folds only results above \<open>2^31 - 1\<close>, once); \<open>add-int/lit16 v0, v1, 1\<close> and
  \<open>add-int/lit8 v0, v1, 1\<close> with \<open>v1 = 2^31 - 1\<close> store \<open>2^31\<close> (the literal helpers
  do not wrap).
\<close>

theorem int_arith_wrap_failures:
  "(\<exists>h v'. arith_handlers sample_runtime 0x91 = Some h \<and>
      h (vm_at1 [0x91, 0, 1, 2] [VNone, VInt 0, VInt 1]) = Inr v' \<and>
      reg_get (registers v') 0 = Inr (VInt 4294967295)) \<and>
   (\<exists>h v'. arith_handlers sample_runtime 0xb1 = Some h \<and>
      h (vm_at1 [0xb1, 0x10] [VInt (- 2147483648), VInt 1]) = Inr v' \<and>
      reg_get (registers v') 0 = Inr (VInt (- 2147483649))) \<and>
   (\<exists>h v'. arith_handlers sample_runtime 0xd0 = Some h \<and>
      h (vm_at1 [0xd0, 0x10, 1, 0] [VNone, VInt 2147483647]) = Inr v' \<and>
      reg_get (registers v') 0 = Inr (VInt 2147483648)) \<and>
   (\<exists>h v'. arith_handlers sample_runtime 0xd8 = Some h \<and>
      h (vm_at1 [0xd8, 0, 1, 1] [VNone, VInt 2147483647]) = Inr v' \<and>
      reg_get (registers v') 0 = Inr (VInt 2147483648))"
  by (simp add: arith_handlers_def ops11_def ops_lit16_def ops_lit8_def arith_23x_def
      arith_2addr_def arith_lit16_def arith_lit8_def byte_at_def py_index_def get_int_def
      reg_get_reg_set_same from_bytes_le_signed_def py_slice_def py_bound_def
      drop_bit_eq_div Let_def)


subsection \<open>Array element access\<close>

lemma as_array_VArr: "a < length h \<Longrightarrow> as_array h (VArr a) = Some (a, h ! a)"
  by simp

lemma execute_aget_out_of_bounds:
  assumes "byte_at v (pc v) = Inr aa" "byte_at v (pc v + 1) = Inr bb" "byte_at v (pc v + 2) = Inr cc"
    and "reg_get (registers v) bb = Inr (VArr a)" "a < length (heap v)"
    and "\<not> (0 \<le> get_int (registers v) cc \<and> get_int (registers v) cc < arr_size (heap v ! a))"
  shows "execute_aget v = Inr (v\<lparr>stdout := stdout v @
             [ArrayIndexWarning (get_int (registers v) cc) (arr_size (heap v ! a))],
           registers := reg_set (registers v) aa (VInt 0), pc := pc v + 3\<rparr>)"
  using assms by (auto simp add: execute_aget_def Let_def)

lemma execute_aput_out_of_bounds:
  assumes "byte_at v (pc v) = Inr aa" "byte_at v (pc v + 1) = Inr bb" "byte_at v (pc v + 2) = Inr cc"
    and "reg_get (registers v) bb = Inr (VArr a)" "a < length (heap v)"
    and "\<not> (0 \<le> get_int (registers v) cc \<and> get_int (registers v) cc < arr_size (heap v ! a))"
  shows "execute_aput v = Inr (v\<lparr>stdout := stdout v @
             [ArrayIndexWarning (get_int (registers v) cc) (arr_size (heap v ! a))],
           pc := pc v + 3\<rparr>)"
  using assms by (auto simp add: execute_aput_def Let_def)

lemma execute_aget_in_bounds:
  assumes "byte_at v (pc v) = Inr aa" "byte_at v (pc v + 1) = Inr bb" "byte_at v (pc v + 2) = Inr cc"
    and "reg_get (registers v) bb = Inr (VArr a)" "a < length (heap v)"
    and "0 \<le> get_int (registers v) cc" "get_int (registers v) cc < arr_size (heap v ! a)"
    and "arr_size (heap v ! a) = int (length (data (heap v ! a)))"
  shows "execute_aget v = Inr (v\<lparr>registers := reg_set (registers v) aa
             (data (heap v ! a) ! nat (get_int (registers v) cc)), pc := pc v + 3\<rparr>)"
  using assms by (simp add: execute_aget_def Let_def py_index_def)

lemma execute_aput_in_bounds:
  assumes "byte_at v (pc v) = Inr aa" "byte_at v (pc v + 1) = Inr bb" "byte_at v (pc v + 2) = Inr cc"
    and "reg_get (registers v) bb = Inr (VArr a)" "a < length (heap v)"
    and "0 \<le> get_int (registers v) cc" "get_int (registers v) cc < arr_size (heap v ! a)"
    and "arr_size (heap v ! a) = int (length (data (heap v ! a)))"
  shows "execute_aput v = Inr (v\<lparr>heap := (heap v)[a := (heap v ! a)\<lparr>data :=
             (data (heap v ! a))[nat (get_int (registers v) cc) := VInt (get_int (registers v) aa)]\<rparr>],
           pc := pc v + 3\<rparr>)"
  using assms by (simp add: execute_aput_def Let_def py_list_set_def)

lemma get_int_non_int:
  "reg_get rs i = Inr x \<Longrightarrow> \<forall>n. x \<noteq> VInt n \<Longrightarrow> get_int rs i = 0"
  by (cases x) (auto simp add: reg_get_def get_int_def split: if_splits)

lemma array_vm_simps [simp]:
  "bytecode (array_vm opc x idx) = [opc, 0, 1, 2]"
  "registers (array_vm opc x idx) = [x, VArr 0, VInt idx]"
  "pc (array_vm opc x idx) = 1"
  "heap (array_vm opc x idx) = [\<lparr>type_desc = TypeName ''[C'', arr_size = 3,
               data = [VInt 65, VInt 66, VInt 67]\<rparr>]"
  "stdout (array_vm opc x idx) = []"
  by (simp_all add: array_vm_def)

lemma array_vm_operands:
  "byte_at (array_vm opc x idx) (pc (array_vm opc x idx)) = Inr 0"
  "byte_at (array_vm opc x idx) (pc (array_vm opc x idx) + 1) = Inr 1"
  "byte_at (array_vm opc x idx) (pc (array_vm opc x idx) + 2) = Inr 2"
  "reg_get (registers (array_vm opc x idx)) 1 = Inr (VArr 0)"
  "reg_get (registers (array_vm opc x idx)) 0 = Inr x"
  "get_int (registers (array_vm opc x idx)) 2 = idx"
  by (simp_all add: byte_at_def py_index_def reg_get_def get_int_def)


text \<open>
  Claim C5. Every aget opcode (\<open>0x44..0x4a\<close>) runs \<open>execute_aget\<close> and every aput
  opcode (\<open>0x4b..0x51\<close>) runs \<open>execute_aput\<close>. When the array register holds an array
  and the index read from vCC is outside \<open>[0, size)\<close>, both print the warning and
  leave the store as it is (no element written, no array allocated); the get writes 0
  to vAA, the put changes no register. When the index is inside \<open>[0, size)\<close> of an array
  whose buffer has \<open>size\<close> elements, nothing is printed, the get writes element \<open>idx\<close>
  to vAA and the put replaces element \<open>idx\<close> alone by the integer read from vAA.
\<close>

theorem array_index_checked:
  assumes "byte_at v (pc v) = Inr aa" "byte_at v (pc v + 1) = Inr bb" "byte_at v (pc v + 2) = Inr cc"
    and "reg_get (registers v) bb = Inr (VArr a)" "a < length (heap v)"
    and "arr = heap v ! a" "idx = get_int (registers v) cc"
  shows "(\<forall>opcode. 0x44 \<le> opcode \<and> opcode \<le> 0x4a \<longrightarrow> array_handlers opcode = Some execute_aget) \<and>
     (\<forall>opcode. 0x4b \<le> opcode \<and> opcode \<le> 0x51 \<longrightarrow> array_handlers opcode = Some execute_aput) \<and>
     (\<not> (0 \<le> idx \<and> idx < arr_size arr) \<longrightarrow>
        (\<exists>v'. execute_aget v = Inr v' \<and>
              stdout v' = stdout v @ [ArrayIndexWarning idx (arr_size arr)] \<and>
              reg_get (registers v') aa = Inr (VInt 0) \<and> heap v' = heap v) \<and>
        (\<exists>v'. execute_aput v = Inr v' \<and>
              stdout v' = stdout v @ [ArrayIndexWarning idx (arr_size arr)] \<and>
              heap v' = heap v \<and> registers v' = registers v)) \<and>
     (0 \<le> idx \<and> idx < arr_size arr \<and> arr_size arr = int (length (data arr)) \<longrightarrow>
        (\<exists>v'. execute_aget v = Inr v' \<and> stdout v' = stdout v \<and>
              reg_get (registers v') aa = Inr (data arr ! nat idx) \<and> heap v' = heap v) \<and>
        (\<exists>v'. execute_aput v = Inr v' \<and> stdout v' = stdout v \<and>
              length (heap v') = length (heap v) \<and>
              (\<forall>b. b \<noteq> a \<longrightarrow> heap v' ! b = heap v ! b) \<and>
              arr_size (heap v' ! a) = arr_size arr \<and>
              length (data (heap v' ! a)) = length (data arr) \<and>
              data (heap v' ! a) ! nat idx = VInt (get_int (registers v) aa) \<and>
              (\<forall>j. j \<noteq> nat idx \<longrightarrow> data (heap v' ! a) ! j = data arr ! j)))"
proof (intro conjI impI allI)
  fix opcode :: nat
  assume "0x44 \<le> opcode \<and> opcode \<le> 0x4a"
  then show "array_handlers opcode = Some execute_aget"
    by (simp add: array_handlers_def)
next
  fix opcode :: nat
  assume "0x4b \<le> opcode \<and> opcode \<le> 0x51"
  then show "array_handlers opcode = Some execute_aput"
    by (simp add: array_handlers_def)
next
  assume oob: "\<not> (0 \<le> idx \<and> idx < arr_size arr)"
  show "\<exists>v'. execute_aget v = Inr v' \<and>
              stdout v' = stdout v @ [ArrayIndexWarning idx (arr_size arr)] \<and>
              reg_get (registers v') aa = Inr (VInt 0) \<and> heap v' = heap v"
    using execute_aget_out_of_bounds [of v aa bb cc a] assms oob
    by (simp add: reg_get_reg_set_same)
  show "\<exists>v'. execute_aput v = Inr v' \<and>
              stdout v' = stdout v @ [ArrayIndexWarning idx (arr_size arr)] \<and>
              heap v' = heap v \<and> registers v' = registers v"
    using execute_aput_out_of_bounds [of v aa bb cc a] assms oob
    by simp
next
  assume inb: "0 \<le> idx \<and> idx < arr_size arr \<and> arr_size arr = int (length (data arr))"
  show "\<exists>v'. execute_aget v = Inr v' \<and> stdout v' = stdout v \<and>
              reg_get (registers v') aa = Inr (data arr ! nat idx) \<and> heap v' = heap v"
    using execute_aget_in_bounds [of v aa bb cc a] assms inb
    by (simp add: reg_get_reg_set_same)
  have lt: "nat idx < length (data arr)" using inb by linarith
  show "\<exists>v'. execute_aput v = Inr v' \<and> stdout v' = stdout v \<and>
              length (heap v') = length (heap v) \<and>
              (\<forall>b. b \<noteq> a \<longrightarrow> heap v' ! b = heap v ! b) \<and>
              arr_size (heap v' ! a) = arr_size arr \<and>
              length (data (heap v' ! a)) = length (data arr) \<and>
              data (heap v' ! a) ! nat idx = VInt (get_int (registers v) aa) \<and>
              (\<forall>j. j \<noteq> nat idx \<longrightarrow> data (heap v' ! a) ! j = data arr ! j)"
    using execute_aput_in_bounds [of v aa bb cc a] assms inb lt
    by simp
qed

text \<open>The theorem at index 3 and index -1 of a three-element array, and at index 1.\<close>

theorem array_index_checked_witness:
  "(\<exists>v'. execute_aget (array_vm 0x44 VNone 3) = Inr v' \<and>
         stdout v' = [ArrayIndexWarning 3 3] \<and> reg_get (registers v') 0 = Inr (VInt 0) \<and>
         heap v' = heap (array_vm 0x44 VNone 3)) \<and>
   (\<exists>v'. execute_aput (array_vm 0x4b (VInt 88) (- 1)) = Inr v' \<and>
         stdout v' = [ArrayIndexWarning (- 1) 3] \<and>
         heap v' = heap (array_vm 0x4b (VInt 88) (- 1))) \<and>
   (\<exists>v'. execute_aget (array_vm 0x44 VNone 1) = Inr v' \<and>
         reg_get (registers v') 0 = Inr (VInt 66)) \<and>
   (\<exists>v'. execute_aput (array_vm 0x4b (VInt 88) 1) = Inr v' \<and>
         data (heap v' ! 0) ! 1 = VInt 88)"
proof -
  let ?arr = "\<lparr>type_desc = TypeName ''[C'', arr_size = 3, data = [VInt 65, VInt 66, VInt 67]\<rparr>"
  have pre: "0 < length (heap (array_vm opc x idx))" "?arr = heap (array_vm opc x idx) ! 0"
    "idx = get_int (registers (array_vm opc x idx)) 2" for opc x idx
    by (simp_all add: get_int_def)
  have c1: "\<exists>v'. execute_aget (array_vm 0x44 VNone 3) = Inr v' \<and>
         stdout v' = [ArrayIndexWarning 3 3] \<and> reg_get (registers v') 0 = Inr (VInt 0) \<and>
         heap v' = heap (array_vm 0x44 VNone 3)"
    using array_index_checked [OF array_vm_operands(1-4) [where opc = "0x44" and x = VNone and idx = 3]
        pre [where opc = "0x44" and x = VNone and idx = 3], THEN conjunct2, THEN conjunct2, THEN conjunct1] by simp
  have c2: "\<exists>v'. execute_aput (array_vm 0x4b (VInt 88) (- 1)) = Inr v' \<and>
         stdout v' = [ArrayIndexWarning (- 1) 3] \<and>
         heap v' = heap (array_vm 0x4b (VInt 88) (- 1))"
    using array_index_checked [OF array_vm_operands(1-4) [where opc = "0x4b" and x = "VInt 88" and idx = "- 1"]
        pre [where opc = "0x4b" and x = "VInt 88" and idx = "- 1"], THEN conjunct2, THEN conjunct2, THEN conjunct1] by auto
  have c3: "\<exists>v'. execute_aget (array_vm 0x44 VNone 1) = Inr v' \<and>
         reg_get (registers v') 0 = Inr (VInt 66)"
    using array_index_checked [OF array_vm_operands(1-4) [where opc = "0x44" and x = VNone and idx = 1]
        pre [where opc = "0x44" and x = VNone and idx = 1], THEN conjunct2, THEN conjunct2, THEN conjunct2] by simp blast
  have c4: "\<exists>v'. execute_aput (array_vm 0x4b (VInt 88) 1) = Inr v' \<and>
         data (heap v' ! 0) ! 1 = VInt 88"
    using array_index_checked [OF array_vm_operands(1-4) [where opc = "0x4b" and x = "VInt 88" and idx = 1]
        pre [where opc = "0x4b" and x = "VInt 88" and idx = 1], THEN conjunct2, THEN conjunct2, THEN conjunct2]
    by (simp add: get_int_def) blast
  from c1 c2 c3 c4 show ?thesis by blast
qed

text \<open>
  Claim C10. Every aput opcode, aput-object and aput-wide included, shares one handler,
  and the value it stores into an in-bounds element is the integer reading of vAA:
  \<open>0\<close> whenever vAA holds anything that is not an integer (an object or array
  reference, a string, a float, \<open>None\<close>).
\<close>

theorem aput_stores_int_reading:
  assumes "byte_at v (pc v) = Inr aa" "byte_at v (pc v + 1) = Inr bb" "byte_at v (pc v + 2) = Inr cc"
    and "reg_get (registers v) bb = Inr (VArr a)" "a < length (heap v)"
    and "0 \<le> get_int (registers v) cc" "get_int (registers v) cc < arr_size (heap v ! a)"
    and "arr_size (heap v ! a) = int (length (data (heap v ! a)))"
    and "0x4b \<le> opcode" "opcode \<le> 0x51"
  shows "\<exists>h v'. array_handlers opcode = Some h \<and> h v = Inr v' \<and>
           data (heap v' ! a) ! nat (get_int (registers v) cc) = VInt (get_int (registers v) aa) \<and>
           (\<forall>x. reg_get (registers v) aa = Inr x \<and> (\<forall>n. x \<noteq> VInt n) \<longrightarrow>
                data (heap v' ! a) ! nat (get_int (registers v) cc) = VInt 0)"
proof -
  have h: "array_handlers opcode = Some execute_aput"
    using assms(9,10) by (simp add: array_handlers_def)
  have lt: "nat (get_int (registers v) cc) < length (data (heap v ! a))"
    using assms(6,7,8) by linarith
  let ?v' = "v\<lparr>heap := (heap v)[a := (heap v ! a)\<lparr>data :=
             (data (heap v ! a))[nat (get_int (registers v) cc) := VInt (get_int (registers v) aa)]\<rparr>],
           pc := pc v + 3\<rparr>"
  have e: "execute_aput v = Inr ?v'"
    using assms(1-8) by (rule execute_aput_in_bounds)
  have s: "data (heap ?v' ! a) ! nat (get_int (registers v) cc) = VInt (get_int (registers v) aa)"
    using assms(5) lt by simp
  have z: "\<forall>x. reg_get (registers v) aa = Inr x \<and> (\<forall>n. x \<noteq> VInt n) \<longrightarrow>
                data (heap ?v' ! a) ! nat (get_int (registers v) cc) = VInt 0"
    using s get_int_non_int [of "registers v" aa] by auto
  from h e s z show ?thesis by blast
qed


text \<open>aput-object of an object reference into element 1 writes the integer 0.\<close>

theorem aput_stores_int_reading_witness:
  "\<exists>h v'. array_handlers 0x4d = Some h \<and> h (array_vm 0x4d (VObj 5) 1) = Inr v' \<and>
      data (heap v' ! 0) ! 1 = VInt 0"
proof -
  have "\<exists>h v'. array_handlers 0x4d = Some h \<and> h (array_vm 0x4d (VObj 5) 1) = Inr v' \<and>
      data (heap v' ! 0) ! nat (get_int (registers (array_vm 0x4d (VObj 5) 1)) 2) =
        VInt (get_int (registers (array_vm 0x4d (VObj 5) 1)) 0) \<and>
      (\<forall>x. reg_get (registers (array_vm 0x4d (VObj 5) 1)) 0 = Inr x \<and> (\<forall>n. x \<noteq> VInt n) \<longrightarrow>
           data (heap v' ! 0) ! nat (get_int (registers (array_vm 0x4d (VObj 5) 1)) 2) = VInt 0)"
    by (rule aput_stores_int_reading [of "array_vm 0x4d (VObj 5) 1" 0 1 2 0 "0x4d",
          OF array_vm_operands(1-4)])
       (simp_all add: get_int_def)
  then show ?thesis by (auto simp add: get_int_def reg_get_def)
qed

subsection \<open>fill-array-data\<close>

text \<open>
  Claim C6 says that after new-array and fill-array-data element \<open>i\<close> is the \<open>i\<close>-th
  little-endian integer of the payload, for every valid element width. The loop of
  \<open>execute_fill_array_data\<close> has branches for the widths 1, 2 and 4 only. For a
  payload of width 8 (a long or double array) with one element, whose eight bytes
  encode 42, the array of size 1 made by new-array still holds 0 after the fill.
\<close>

theorem fill_array_data_wide_unfilled:
  "\<exists>v1 v2. execute_new_array (vm_at1 fill_wide_code [VNone, VInt 1]) = Inr v1 \<and>
      execute_fill_array_data (v1\<lparr>pc := pc v1 + 1\<rparr>) = Inr v2 \<and>
      registers v2 = [VArr 0, VInt 1] \<and>
      from_bytes_le (py_slice fill_wide_code 20 28) = 42 \<and>
      data (heap v2 ! 0) = [VInt 0]"
  by (simp add: execute_new_array_def execute_fill_array_data_def vm_at1_def fill_wide_code_def
      byte_at_def py_index_def py_slice_def py_bound_def from_bytes_le_signed_def read_u16_def
      get_int_def reg_get_def reg_set_def DalvikArray_def fill_element_def Let_def
      drop_bit_eq_div)

end
